theory Spec2Isabelle
  imports Main "HOL-Library.Word"
begin

section \<open>Values of the C program\<close>

text \<open>
  The development embeds \<^verbatim>\<open>src/shared/openssl-util.c\<close>. Memory is a list of bytes; a
  \<^verbatim>\<open>const void *\<close> argument is either \<open>NULL\<close> or the readable region it points to.
  An output parameter (\<^verbatim>\<open>T *ret\<close>) is either \<open>NullP\<close> or \<open>Out v\<close>, where \<open>v\<close> is what the
  caller's location holds. \<^verbatim>\<open>size_t\<close> is a natural number below \<open>2 ^ 64\<close>, and a C
  \<^verbatim>\<open>int\<close> is an integer; the conversion between them is written out.
\<close>

type_synonym byte = "8 word"
type_synonym bytes = "byte list"

datatype cptr = NULL | Mem bytes

datatype 'a outp = NullP | Out 'a

definition SIZE_MAX :: nat where
  "SIZE_MAX = 2 ^ 64 - 1"

definition size_t_of_int :: "int \<Rightarrow> nat" where
  "size_t_of_int i = nat (i mod 2 ^ 64)"

definition int_of_size_t :: "nat \<Rightarrow> int" where
  "int_of_size_t n =
     (let m = int n mod 2 ^ 32 in if m < 2 ^ 31 then m else m - 2 ^ 32)"

text \<open>Division of C integers truncates towards zero.\<close>

definition c_div :: "int \<Rightarrow> int \<Rightarrow> int" where
  "c_div a b = (if (a < 0) = (b < 0) then \<bar>a\<bar> div \<bar>b\<bar> else - (\<bar>a\<bar> div \<bar>b\<bar>))"

text \<open>\<^verbatim>\<open>strlen\<close> needs a terminating zero byte inside the region.\<close>

definition strlen :: "bytes \<Rightarrow> nat option" where
  "strlen r = (if 0 \<in> set r then Some (length (takeWhile (\<lambda>b. b \<noteq> 0) r)) else None)"

text \<open>
  Every function of the file returns \<^verbatim>\<open>0\<close> or a negative \<^verbatim>\<open>errno\<close>. A failed
  \<^verbatim>\<open>assert()\<close> aborts the program (\<open>Abort\<close>), and a step whose behaviour C leaves
  undefined (a store through a null pointer that was not checked, a read past the end
  of a region) is \<open>Undefined\<close>.
\<close>

datatype errno = EIO | ENOMEM | EOPNOTSUPP | EBADMSG

datatype status = OK | Error errno | Abort | Undefined

text \<open>
  The specification names kinds of errors instead of \<^verbatim>\<open>errno\<close> values. This is the
  reading of its taxonomy on the values the source returns; no value of the source is
  read as \<open>BadInput\<close>.
\<close>

datatype error_kind = Unsupported | IoError | OutOfMemory | WrongKeyType | BadInput

fun error_kind_of :: "errno \<Rightarrow> error_kind" where
  "error_kind_of EOPNOTSUPP = Unsupported"
| "error_kind_of EIO = IoError"
| "error_kind_of ENOMEM = OutOfMemory"
| "error_kind_of EBADMSG = WrongKeyType"

section \<open>The world outside the functions\<close>

text \<open>
  \<open>err_queue\<close> is the provider's error queue of the thread, oldest entry first.
  \<open>malloc_plan\<close> says for the coming allocations (\<^verbatim>\<open>malloc\<close>, \<^verbatim>\<open>fmemopen\<close>) whether
  each one succeeds; when the plan is used up, allocations succeed. \<open>journal\<close> is what
  was logged at debug level. \<open>sign_trace\<close> records the \<open>(data, size)\<close> pair of every
  \<^verbatim>\<open>EVP_DigestSign\<close> call.
\<close>

record world =
  err_queue :: "nat list"
  malloc_plan :: "bool list"
  journal :: "(errno option \<times> string) list"
  sign_trace :: "(cptr \<times> nat) list"

text \<open>Fresh memory is indeterminate in C; the model fills it with zero bytes.\<close>

definition malloc :: "nat \<Rightarrow> world \<Rightarrow> bytes option \<times> world" where
  "malloc n w =
     (case malloc_plan w of
        [] \<Rightarrow> (Some (replicate n 0), w)
      | ok # plan \<Rightarrow>
          ((if ok then Some (replicate n 0) else None), w\<lparr>malloc_plan := plan\<rparr>))"

text \<open>
  A provider call that fills a caller's buffer: \<open>mem_write buf out\<close> is the buffer after
  \<open>out\<close> was written at its start, or \<open>None\<close> when \<open>out\<close> does not fit.
\<close>

definition mem_write :: "bytes \<Rightarrow> bytes \<Rightarrow> bytes option" where
  "mem_write buf out =
     (if length out \<le> length buf then Some (out @ drop (length out) buf) else None)"

text \<open>
  The logging macros of systemd are not part of the file. \<^verbatim>\<open>log_debug_errno(SYNTHETIC_ERRNO(E), ...)\<close>
  logs at debug level and evaluates to \<^verbatim>\<open>-E\<close>; \<^verbatim>\<open>log_oom_debug()\<close> logs and
  evaluates to \<^verbatim>\<open>-ENOMEM\<close>. Arguments of the format string are not rendered.
\<close>

definition log_debug_errno :: "errno \<Rightarrow> string \<Rightarrow> world \<Rightarrow> status \<times> world" where
  "log_debug_errno e msg w = (Error e, w\<lparr>journal := journal w @ [(Some e, msg)]\<rparr>)"

definition log_oom_debug :: "world \<Rightarrow> status \<times> world" where
  "log_oom_debug w = log_debug_errno ENOMEM ''Out of memory.'' w"

definition log_debug :: "string \<Rightarrow> world \<Rightarrow> world" where
  "log_debug msg w = w\<lparr>journal := journal w @ [(None, msg)]\<rparr>"

text \<open>
  \<^verbatim>\<open>fmemopen(buf, size, "r")\<close> allocates a stream over the caller's buffer.
\<close>

datatype c_file = FILE cptr nat

definition fmemopen :: "cptr \<Rightarrow> nat \<Rightarrow> world \<Rightarrow> c_file option \<times> world" where
  "fmemopen buf buf_size w =
     (case malloc 0 w of
        (None, w1) \<Rightarrow> (None, w1)
      | (Some stream, w1) \<Rightarrow> (Some (FILE buf buf_size), w1))"

text \<open>\<^verbatim>\<open>return r;\<close> before any output was stored.\<close>

definition leaving :: "'o \<Rightarrow> status \<times> world \<Rightarrow> status \<times> 'o \<times> world" where
  "leaving outs rw = (fst rw, outs, snd rw)"

section \<open>The provider\<close>

text \<open>
  The cryptographic library is outside the file. Each of its functions that the file
  calls is a field of \<open>provider\<close>: the result of the call as a function of its
  arguments, \<open>None\<close> where the call returns a null pointer or a value that the file
  takes as failure. An object that a call changes in place is returned as the new
  object. \<open>OPENSSL_VERSION_MAJOR\<close> selects the branch of the conditional compilation.

  The objects of the library are opaque to the file. The model gives the key objects
  enough structure for a provider to keep in them what they were built from; what a
  provider does with them is the provider's.
\<close>

type_synonym bignum = nat

datatype ossl_param_value = Utf8_string string | BN bignum | Octet_string bytes

type_synonym ossl_param = "string \<times> ossl_param_value"

datatype evp_md = EVP_MD nat
datatype evp_md_ctx = EVP_MD_CTX nat
datatype evp_mac = EVP_MAC nat
datatype evp_mac_ctx = EVP_MAC_CTX nat
datatype hmac_ctx = HMAC_CTX nat
datatype rsa = RSA "bignum option" "bignum option"
datatype ec_group = EC_GROUP int
datatype ec_point = EC_POINT "(bignum \<times> bignum) option"
datatype ec_key = EC_KEY "ec_group option" "ec_point option"
datatype evp_pkey =
    EVP_PKEY_none
  | EVP_PKEY_rsa rsa
  | EVP_PKEY_ec ec_key
  | EVP_PKEY_data int "ossl_param list"
datatype evp_pkey_ctx = EVP_PKEY_CTX nat

record iovec =
  iov_base :: cptr
  iov_len :: nat

record provider =
  OPENSSL_VERSION_MAJOR :: nat
  ERR_error_string :: "nat \<Rightarrow> string"
  EVP_MD_fetch :: "string \<Rightarrow> evp_md option"
  EVP_get_digestbyname :: "string \<Rightarrow> evp_md option"
  EVP_MD_get_size :: "evp_md \<Rightarrow> int"
  EVP_MD_CTX_new :: "evp_md_ctx option"
  EVP_DigestInit_ex :: "evp_md_ctx \<Rightarrow> evp_md \<Rightarrow> evp_md_ctx option"
  EVP_DigestUpdate :: "evp_md_ctx \<Rightarrow> cptr \<Rightarrow> nat \<Rightarrow> evp_md_ctx option"
  EVP_DigestFinal_ex :: "evp_md_ctx \<Rightarrow> bytes option"
  EVP_MAC_fetch :: "string \<Rightarrow> evp_mac option"
  EVP_MAC_CTX_new :: "evp_mac \<Rightarrow> evp_mac_ctx option"
  EVP_MAC_init :: "evp_mac_ctx \<Rightarrow> cptr \<Rightarrow> nat \<Rightarrow> ossl_param list \<Rightarrow> evp_mac_ctx option"
  EVP_MAC_update :: "evp_mac_ctx \<Rightarrow> cptr \<Rightarrow> nat \<Rightarrow> evp_mac_ctx option"
  EVP_MAC_CTX_get_mac_size :: "evp_mac_ctx \<Rightarrow> nat"
  EVP_MAC_final :: "evp_mac_ctx \<Rightarrow> nat \<Rightarrow> bytes option"
  HMAC_CTX_new :: "hmac_ctx option"
  HMAC_Init_ex :: "hmac_ctx \<Rightarrow> cptr \<Rightarrow> int \<Rightarrow> evp_md \<Rightarrow> hmac_ctx option"
  HMAC_Update :: "hmac_ctx \<Rightarrow> cptr \<Rightarrow> nat \<Rightarrow> hmac_ctx option"
  HMAC_size :: "hmac_ctx \<Rightarrow> nat"
  HMAC_Final :: "hmac_ctx \<Rightarrow> bytes option"
  BN_bin2bn_fails :: "bytes \<Rightarrow> bool"
  BN_new_fails :: bool
  OSSL_PARAM_BLD_new_fails :: bool
  OSSL_PARAM_BLD_push_fails :: "ossl_param list \<Rightarrow> ossl_param \<Rightarrow> bool"
  OSSL_PARAM_BLD_to_param_fails :: "ossl_param list \<Rightarrow> bool"
  PEM_read_PUBKEY :: "c_file \<Rightarrow> evp_pkey option"
  EVP_PKEY_CTX_new :: "evp_pkey option \<Rightarrow> evp_pkey_ctx option"
  EVP_PKEY_CTX_new_id :: "int \<Rightarrow> evp_pkey_ctx option"
  EVP_PKEY_encrypt_init :: "evp_pkey_ctx \<Rightarrow> evp_pkey_ctx option"
  EVP_PKEY_CTX_set_rsa_padding :: "evp_pkey_ctx \<Rightarrow> int \<Rightarrow> evp_pkey_ctx option"
  EVP_PKEY_encrypt :: "evp_pkey_ctx \<Rightarrow> nat option \<Rightarrow> cptr \<Rightarrow> nat \<Rightarrow> (nat \<times> bytes) option"
  EVP_PKEY_base_id :: "evp_pkey \<Rightarrow> int"
  EVP_PKEY_bits :: "evp_pkey \<Rightarrow> int"
  EVP_PKEY_fromdata_init :: "evp_pkey_ctx \<Rightarrow> evp_pkey_ctx option"
  EVP_PKEY_fromdata :: "evp_pkey_ctx \<Rightarrow> int \<Rightarrow> ossl_param list \<Rightarrow> evp_pkey option"
  EVP_PKEY_get_bn_param :: "evp_pkey \<Rightarrow> string \<Rightarrow> bignum option"
  EVP_PKEY_get_utf8_string_param :: "evp_pkey \<Rightarrow> string \<Rightarrow> nat option \<Rightarrow> (string \<times> nat) option"
  RSA_new :: "rsa option"
  RSA_set0_key :: "rsa \<Rightarrow> bignum \<Rightarrow> bignum \<Rightarrow> rsa option"
  EVP_PKEY_new :: "evp_pkey option"
  EVP_PKEY_assign_RSA :: "evp_pkey \<Rightarrow> rsa \<Rightarrow> evp_pkey option"
  EVP_PKEY_get0_RSA :: "evp_pkey \<Rightarrow> rsa option"
  RSA_get0_n :: "rsa \<Rightarrow> bignum option"
  RSA_get0_e :: "rsa \<Rightarrow> bignum option"
  i2d_PublicKey :: "evp_pkey \<Rightarrow> bool \<Rightarrow> int \<times> bytes"
  EVP_DigestSignInit :: "evp_md_ctx \<Rightarrow> evp_md option \<Rightarrow> evp_pkey \<Rightarrow> evp_md_ctx option"
  EVP_DigestSign :: "evp_md_ctx \<Rightarrow> nat option \<Rightarrow> cptr \<Rightarrow> nat \<Rightarrow> (nat \<times> bytes) option"
  EC_GROUP_new_by_curve_name :: "int \<Rightarrow> ec_group option"
  EC_POINT_new :: "ec_group \<Rightarrow> ec_point option"
  EC_POINT_set_affine_coordinates :: "ec_group \<Rightarrow> ec_point \<Rightarrow> bignum \<Rightarrow> bignum \<Rightarrow> ec_point option"
  OSSL_EC_curve_nid2name :: "int \<Rightarrow> string option"
  EC_POINT_point2buf :: "ec_group \<Rightarrow> ec_point \<Rightarrow> int \<Rightarrow> bytes"
  OBJ_sn2nid :: "string \<Rightarrow> int"
  EC_KEY_new :: "ec_key option"
  EC_KEY_set_group :: "ec_key \<Rightarrow> ec_group \<Rightarrow> ec_key option"
  EC_KEY_set_public_key :: "ec_key \<Rightarrow> ec_point \<Rightarrow> ec_key option"
  EVP_PKEY_assign_EC_KEY :: "evp_pkey \<Rightarrow> ec_key \<Rightarrow> evp_pkey option"
  EVP_PKEY_get0_EC_KEY :: "evp_pkey \<Rightarrow> ec_key option"
  EC_KEY_get0_group :: "ec_key \<Rightarrow> ec_group option"
  EC_GROUP_get_curve_name :: "ec_group \<Rightarrow> int"
  EC_KEY_get0_public_key :: "ec_key \<Rightarrow> ec_point option"
  EC_POINT_get_affine_coordinates :: "ec_group \<Rightarrow> ec_point \<Rightarrow> (bignum \<times> bignum) option"

text \<open>
  The fields follow the library's documentation in these points. A size query
  (\<^verbatim>\<open>EVP_PKEY_encrypt\<close>, \<^verbatim>\<open>EVP_DigestSign\<close>, \<^verbatim>\<open>EVP_PKEY_get_utf8_string_param\<close>
  with a null buffer) passes \<open>None\<close> for the buffer and a filling call \<open>Some\<close> of the
  buffer's capacity; the result is the length reported and what was written.
  \<^verbatim>\<open>i2d_PublicKey(pk, NULL)\<close> passes \<open>False\<close>, \<^verbatim>\<open>i2d_PublicKey(pk, &dd)\<close> passes \<open>True\<close>.
  \<^verbatim>\<open>EVP_MD_get_size\<close> is called \<^verbatim>\<open>EVP_MD_size\<close> before version 3.
\<close>

definition EVP_PKEY_RSA :: int where
  "EVP_PKEY_RSA = 6"

definition EVP_PKEY_EC :: int where
  "EVP_PKEY_EC = 408"

definition NID_undef :: int where
  "NID_undef = 0"

definition RSA_PKCS1_PADDING :: int where
  "RSA_PKCS1_PADDING = 1"

definition EVP_PKEY_PUBLIC_KEY :: int where
  "EVP_PKEY_PUBLIC_KEY = 134"

definition POINT_CONVERSION_UNCOMPRESSED :: int where
  "POINT_CONVERSION_UNCOMPRESSED = 4"

definition OSSL_MAC_PARAM_DIGEST :: string where
  "OSSL_MAC_PARAM_DIGEST = ''digest''"

definition OSSL_PKEY_PARAM_RSA_N :: string where
  "OSSL_PKEY_PARAM_RSA_N = ''n''"

definition OSSL_PKEY_PARAM_RSA_E :: string where
  "OSSL_PKEY_PARAM_RSA_E = ''e''"

definition OSSL_PKEY_PARAM_GROUP_NAME :: string where
  "OSSL_PKEY_PARAM_GROUP_NAME = ''group''"

definition OSSL_PKEY_PARAM_PUB_KEY :: string where
  "OSSL_PKEY_PARAM_PUB_KEY = ''pub''"

definition OSSL_PKEY_PARAM_EC_PUB_X :: string where
  "OSSL_PKEY_PARAM_EC_PUB_X = ''qx''"

definition OSSL_PKEY_PARAM_EC_PUB_Y :: string where
  "OSSL_PKEY_PARAM_EC_PUB_Y = ''qy''"

subsection \<open>Big numbers\<close>

text \<open>
  A \<^verbatim>\<open>BIGNUM\<close> is the natural number it holds. \<^verbatim>\<open>BN_bin2bn(s, len, NULL)\<close> reads
  \<open>len\<close> bytes as a big-endian number, and fails on a negative \<open>len\<close> or when it cannot
  allocate. \<^verbatim>\<open>BN_bn2bin\<close> writes the big-endian form without leading zero bytes, and
  \<^verbatim>\<open>BN_num_bytes(a)\<close> is \<^verbatim>\<open>(BN_num_bits(a)+7)/8\<close>.
\<close>

definition bin2bn :: "bytes \<Rightarrow> bignum" where
  "bin2bn s = foldl (\<lambda>acc b. 256 * acc + unat b) 0 s"

definition BN_bin2bn :: "provider \<Rightarrow> cptr \<Rightarrow> int \<Rightarrow> bignum option" where
  "BN_bin2bn p s len =
     (case s of
        NULL \<Rightarrow> None
      | Mem r \<Rightarrow>
          if len < 0 \<or> BN_bin2bn_fails p (take (nat len) r) then None
          else Some (bin2bn (take (nat len) r)))"

definition BN_new :: "provider \<Rightarrow> bignum option" where
  "BN_new p = (if BN_new_fails p then None else Some 0)"

fun BN_num_bits :: "bignum \<Rightarrow> nat" where
  "BN_num_bits a = (if a = 0 then 0 else Suc (BN_num_bits (a div 2)))"

declare BN_num_bits.simps [simp del]

definition BN_num_bytes :: "bignum \<Rightarrow> int" where
  "BN_num_bytes a = int ((BN_num_bits a + 7) div 8)"

fun BN_bn2bin :: "bignum \<Rightarrow> bytes" where
  "BN_bn2bin a = (if a = 0 then [] else BN_bn2bin (a div 256) @ [of_nat (a mod 256)])"

declare BN_bn2bin.simps [simp del]

subsection \<open>Parameter lists\<close>

text \<open>
  An \<^verbatim>\<open>OSSL_PARAM_BLD\<close> is the list of the parameters pushed so far, and
  \<^verbatim>\<open>OSSL_PARAM_BLD_to_param\<close> gives that list; each call may fail.
\<close>

definition OSSL_PARAM_BLD_new :: "provider \<Rightarrow> ossl_param list option" where
  "OSSL_PARAM_BLD_new p = (if OSSL_PARAM_BLD_new_fails p then None else Some [])"

definition OSSL_PARAM_BLD_push :: "provider \<Rightarrow> ossl_param list \<Rightarrow> ossl_param \<Rightarrow> ossl_param list option" where
  "OSSL_PARAM_BLD_push p bld param =
     (if OSSL_PARAM_BLD_push_fails p bld param then None else Some (bld @ [param]))"

definition OSSL_PARAM_BLD_push_utf8_string ::
  "provider \<Rightarrow> ossl_param list \<Rightarrow> string \<Rightarrow> string \<Rightarrow> ossl_param list option" where
  "OSSL_PARAM_BLD_push_utf8_string p bld key buf = OSSL_PARAM_BLD_push p bld (key, Utf8_string buf)"

definition OSSL_PARAM_BLD_push_BN ::
  "provider \<Rightarrow> ossl_param list \<Rightarrow> string \<Rightarrow> bignum \<Rightarrow> ossl_param list option" where
  "OSSL_PARAM_BLD_push_BN p bld key bn = OSSL_PARAM_BLD_push p bld (key, BN bn)"

definition OSSL_PARAM_BLD_push_octet_string ::
  "provider \<Rightarrow> ossl_param list \<Rightarrow> string \<Rightarrow> bytes \<Rightarrow> ossl_param list option" where
  "OSSL_PARAM_BLD_push_octet_string p bld key buf = OSSL_PARAM_BLD_push p bld (key, Octet_string buf)"

definition OSSL_PARAM_BLD_to_param :: "provider \<Rightarrow> ossl_param list \<Rightarrow> ossl_param list option" where
  "OSSL_PARAM_BLD_to_param p bld =
     (if OSSL_PARAM_BLD_to_param_fails p bld then None else Some bld)"

section \<open>Draining the error queue\<close>

text \<open>\<^verbatim>\<open>ERR_get_error()\<close> pops the oldest error, and is \<^verbatim>\<open>0\<close> on an empty queue.\<close>

definition ERR_get_error :: "world \<Rightarrow> nat \<times> world" where
  "ERR_get_error w =
     (case err_queue w of
        [] \<Rightarrow> (0, w)
      | e # es \<Rightarrow> (e, w\<lparr>err_queue := es\<rparr>))"

text \<open>\<^verbatim>\<open>ERR_error_string_n(e, buf, max)\<close> leaves at most \<open>max - 1\<close> characters in \<open>buf\<close>.\<close>

definition ERR_error_string_n :: "provider \<Rightarrow> nat \<Rightarrow> nat \<Rightarrow> string" where
  "ERR_error_string_n p e max_len = take (max_len - 1) (ERR_error_string p e)"

text \<open>The macro \<^verbatim>\<open>__log_openssl_errors\<close>: the loop, with \<open>R\<close> its accumulator.\<close>

function log_openssl_errors_loop ::
  "provider \<Rightarrow> nat \<Rightarrow> string \<Rightarrow> status \<Rightarrow> world \<Rightarrow> status \<times> world" where
  "log_openssl_errors_loop p max_len fmt R w =
     (case ERR_get_error w of
        (E, w1) \<Rightarrow>
          if E = 0 then (R, w1)
          else (case log_debug_errno EIO (fmt @ '': '' @ ERR_error_string_n p E max_len) w1 of
                  (R', w2) \<Rightarrow> log_openssl_errors_loop p max_len fmt R' w2))"
  by pat_completeness auto
termination
  by (relation "measure (\<lambda>(p, max_len, fmt, R, w). length (err_queue w))")
     (auto simp: ERR_get_error_def log_debug_errno_def split: list.splits)

declare log_openssl_errors_loop.simps [simp del]

text \<open>The macro \<^verbatim>\<open>log_openssl_errors\<close>.\<close>

definition log_openssl_errors :: "provider \<Rightarrow> string \<Rightarrow> world \<Rightarrow> status \<times> world" where
  "log_openssl_errors p fmt w =
     (let BUF_MAX = 512 in
      case malloc BUF_MAX w of
        (None, w1) \<Rightarrow> log_oom_debug w1
      | (Some BUF, w1) \<Rightarrow>
          (case log_openssl_errors_loop p BUF_MAX fmt OK w1 of
             (R, w2) \<Rightarrow>
               if R \<noteq> OK then (R, w2)
               else log_debug_errno EIO (fmt @ '': No openssl errors.'') w2))"

section \<open>Digests\<close>

definition md_by_name :: "provider \<Rightarrow> string \<Rightarrow> evp_md option" where
  "md_by_name p digest_alg =
     (if 3 \<le> OPENSSL_VERSION_MAJOR p then EVP_MD_fetch p digest_alg
      else EVP_get_digestbyname p digest_alg)"

definition openssl_digest_size ::
  "provider \<Rightarrow> string option \<Rightarrow> nat outp \<Rightarrow> world \<Rightarrow> status \<times> nat outp \<times> world" where
  "openssl_digest_size p digest_alg ret_digest_size w =
     (case digest_alg of
        None \<Rightarrow> (Abort, ret_digest_size, w)
      | Some alg \<Rightarrow>
          if ret_digest_size = NullP then (Abort, ret_digest_size, w)
          else (case md_by_name p alg of
                  None \<Rightarrow>
                    leaving ret_digest_size
                      (log_debug_errno EOPNOTSUPP ''Digest algorithm '%s' not supported.'' w)
                | Some md \<Rightarrow>
                    let digest_size = size_t_of_int (EVP_MD_get_size p md) in
                    if digest_size = 0
                    then leaving ret_digest_size
                           (log_openssl_errors p ''Failed to get Digest size'' w)
                    else (OK, Out digest_size, w)))"

text \<open>The array behind a \<^verbatim>\<open>const struct iovec data[]\<close> argument; a null pointer has no elements.\<close>

definition the_array :: "'a list option \<Rightarrow> 'a list" where
  "the_array a = (case a of None \<Rightarrow> [] | Some xs \<Rightarrow> xs)"

text \<open>
  How a loop over the array ends: all elements were fed (\<open>Fed ctx\<close>), the provider
  failed on one (\<open>Refused\<close>), or the index left the array (\<open>Overrun\<close>).
\<close>

datatype 'c loop_end = Fed 'c | Refused | Overrun

function digest_update_loop ::
  "provider \<Rightarrow> evp_md_ctx \<Rightarrow> iovec list \<Rightarrow> nat \<Rightarrow> nat \<Rightarrow> evp_md_ctx loop_end" where
  "digest_update_loop p ctx data i n_data =
     (if i < n_data then
        (if i < length data then
           (case EVP_DigestUpdate p ctx (iov_base (data ! i)) (iov_len (data ! i)) of
              None \<Rightarrow> Refused
            | Some ctx' \<Rightarrow> digest_update_loop p ctx' data (Suc i) n_data)
         else Overrun)
      else Fed ctx)"
  by pat_completeness auto
termination
  by (relation "measure (\<lambda>(p, ctx, data, i, n_data). n_data - i)") auto

declare digest_update_loop.simps [simp del]

definition openssl_digest_many ::
  "provider \<Rightarrow> string option \<Rightarrow> iovec list option \<Rightarrow> nat \<Rightarrow> cptr outp \<Rightarrow> nat outp \<Rightarrow> world
     \<Rightarrow> status \<times> (cptr outp \<times> nat outp) \<times> world" where
  "openssl_digest_many p digest_alg data n_data ret_digest ret_digest_size w =
     (let rets = (ret_digest, ret_digest_size) in
      case digest_alg of
        None \<Rightarrow> (Abort, rets, w)
      | Some alg \<Rightarrow>
          if data = None \<and> n_data \<noteq> 0 then (Abort, rets, w)
          else if ret_digest = NullP then (Abort, rets, w)
          else
           (case md_by_name p alg of
              None \<Rightarrow>
                leaving rets
                  (log_debug_errno EOPNOTSUPP ''Digest algorithm '%s' not supported.'' w)
            | Some md \<Rightarrow>
           (case EVP_MD_CTX_new p of
              None \<Rightarrow> leaving rets (log_openssl_errors p ''Failed to create new EVP_MD_CTX'' w)
            | Some ctx \<Rightarrow>
           (case EVP_DigestInit_ex p ctx md of
              None \<Rightarrow> leaving rets (log_openssl_errors p ''Failed to initializate EVP_MD_CTX'' w)
            | Some ctx1 \<Rightarrow>
           (case digest_update_loop p ctx1 (the_array data) 0 n_data of
              Refused \<Rightarrow> leaving rets (log_openssl_errors p ''Failed to update Digest'' w)
            | Overrun \<Rightarrow> (Undefined, rets, w)
            | Fed ctx2 \<Rightarrow>
           (case openssl_digest_size p digest_alg (Out 0) w of
              (r, digest_size_var, w1) \<Rightarrow>
           (case r of
              Error e \<Rightarrow> (r, rets, w1)
            | Abort \<Rightarrow> (r, rets, w1)
            | Undefined \<Rightarrow> (r, rets, w1)
            | OK \<Rightarrow>
           (case digest_size_var of
              NullP \<Rightarrow> (Undefined, rets, w1)
            | Out digest_size \<Rightarrow>
           (case malloc digest_size w1 of
              (None, w2) \<Rightarrow> leaving rets (log_oom_debug w2)
            | (Some buf, w2) \<Rightarrow>
           (case EVP_DigestFinal_ex p ctx2 of
              None \<Rightarrow> leaving rets (log_openssl_errors p ''Failed to finalize Digest'' w2)
            | Some digest \<Rightarrow>
           (case mem_write buf digest of
              None \<Rightarrow> (Undefined, rets, w2)
            | Some buf' \<Rightarrow>
                let size = length digest in
                if size \<noteq> digest_size then (Abort, rets, w2)
                else (OK,
                      (Out (Mem buf'), (if ret_digest_size \<noteq> NullP then Out size else ret_digest_size)),
                      w2))))))))))))"

section \<open>HMAC\<close>

text \<open>The context of the MAC is an \<^verbatim>\<open>EVP_MAC_CTX\<close> from version 3 on and an \<^verbatim>\<open>HMAC_CTX\<close> before.\<close>

datatype mac_handle = Mac_ctx evp_mac_ctx | Hmac_ctx hmac_ctx

definition mac_update :: "provider \<Rightarrow> mac_handle \<Rightarrow> cptr \<Rightarrow> nat \<Rightarrow> mac_handle option" where
  "mac_update p h base len =
     (case h of
        Mac_ctx ctx \<Rightarrow> map_option Mac_ctx (EVP_MAC_update p ctx base len)
      | Hmac_ctx ctx \<Rightarrow> map_option Hmac_ctx (HMAC_Update p ctx base len))"

definition mac_size :: "provider \<Rightarrow> mac_handle \<Rightarrow> nat" where
  "mac_size p h =
     (case h of
        Mac_ctx ctx \<Rightarrow> EVP_MAC_CTX_get_mac_size p ctx
      | Hmac_ctx ctx \<Rightarrow> HMAC_size p ctx)"

definition mac_final :: "provider \<Rightarrow> mac_handle \<Rightarrow> nat \<Rightarrow> bytes option" where
  "mac_final p h digest_size =
     (case h of
        Mac_ctx ctx \<Rightarrow> EVP_MAC_final p ctx digest_size
      | Hmac_ctx ctx \<Rightarrow> HMAC_Final p ctx)"

function mac_update_loop ::
  "provider \<Rightarrow> mac_handle \<Rightarrow> iovec list \<Rightarrow> nat \<Rightarrow> nat \<Rightarrow> mac_handle loop_end" where
  "mac_update_loop p ctx data i n_data =
     (if i < n_data then
        (if i < length data then
           (case mac_update p ctx (iov_base (data ! i)) (iov_len (data ! i)) of
              None \<Rightarrow> Refused
            | Some ctx' \<Rightarrow> mac_update_loop p ctx' data (Suc i) n_data)
         else Overrun)
      else Fed ctx)"
  by pat_completeness auto
termination
  by (relation "measure (\<lambda>(p, ctx, data, i, n_data). n_data - i)") auto

declare mac_update_loop.simps [simp del]

text \<open>The first conditional block of \<^verbatim>\<open>openssl_hmac_many\<close>: a keyed context, or the error to return.\<close>

definition hmac_init ::
  "provider \<Rightarrow> string \<Rightarrow> evp_md \<Rightarrow> cptr \<Rightarrow> nat \<Rightarrow> world \<Rightarrow> (status \<times> world) + mac_handle" where
  "hmac_init p digest_alg md key key_size w =
     (if 3 \<le> OPENSSL_VERSION_MAJOR p then
       (case EVP_MAC_fetch p ''HMAC'' of
          None \<Rightarrow> Inl (log_openssl_errors p ''Failed to create new EVP_MAC'' w)
        | Some mac \<Rightarrow>
       (case EVP_MAC_CTX_new p mac of
          None \<Rightarrow> Inl (log_openssl_errors p ''Failed to create new EVP_MAC_CTX'' w)
        | Some ctx \<Rightarrow>
       (case OSSL_PARAM_BLD_new p of
          None \<Rightarrow> Inl (log_openssl_errors p ''Failed to create new OSSL_PARAM_BLD'' w)
        | Some bld \<Rightarrow>
       (case OSSL_PARAM_BLD_push_utf8_string p bld OSSL_MAC_PARAM_DIGEST digest_alg of
          None \<Rightarrow> Inl (log_openssl_errors p ''Failed to set HMAC OSSL_MAC_PARAM_DIGEST'' w)
        | Some bld1 \<Rightarrow>
       (case OSSL_PARAM_BLD_to_param p bld1 of
          None \<Rightarrow> Inl (log_openssl_errors p ''Failed to build HMAC OSSL_PARAM'' w)
        | Some params \<Rightarrow>
       (case EVP_MAC_init p ctx key key_size params of
          None \<Rightarrow> Inl (log_openssl_errors p ''Failed to initializate EVP_MAC_CTX'' w)
        | Some ctx1 \<Rightarrow> Inr (Mac_ctx ctx1)))))))
      else
       (case HMAC_CTX_new p of
          None \<Rightarrow> Inl (log_openssl_errors p ''Failed to create new HMAC_CTX'' w)
        | Some ctx \<Rightarrow>
       (case HMAC_Init_ex p ctx key (int_of_size_t key_size) md of
          None \<Rightarrow> Inl (log_openssl_errors p ''Failed to initialize HMAC_CTX'' w)
        | Some ctx1 \<Rightarrow> Inr (Hmac_ctx ctx1))))"

definition openssl_hmac_many ::
  "provider \<Rightarrow> string option \<Rightarrow> cptr \<Rightarrow> nat \<Rightarrow> iovec list option \<Rightarrow> nat \<Rightarrow> cptr outp \<Rightarrow> nat outp
     \<Rightarrow> world \<Rightarrow> status \<times> (cptr outp \<times> nat outp) \<times> world" where
  "openssl_hmac_many p digest_alg key key_size data n_data ret_digest ret_digest_size w =
     (let rets = (ret_digest, ret_digest_size) in
      case digest_alg of
        None \<Rightarrow> (Abort, rets, w)
      | Some alg \<Rightarrow>
          if key = NULL then (Abort, rets, w)
          else if data = None \<and> n_data \<noteq> 0 then (Abort, rets, w)
          else if ret_digest = NullP then (Abort, rets, w)
          else
           (case md_by_name p alg of
              None \<Rightarrow>
                leaving rets
                  (log_debug_errno EOPNOTSUPP ''Digest algorithm '%s' not supported.'' w)
            | Some md \<Rightarrow>
           (case hmac_init p alg md key key_size w of
              Inl rw \<Rightarrow> leaving rets rw
            | Inr ctx \<Rightarrow>
           (case mac_update_loop p ctx (the_array data) 0 n_data of
              Refused \<Rightarrow> leaving rets (log_openssl_errors p ''Failed to update HMAC'' w)
            | Overrun \<Rightarrow> (Undefined, rets, w)
            | Fed ctx2 \<Rightarrow>
                let digest_size = mac_size p ctx2 in
                if digest_size = 0
                then leaving rets (log_openssl_errors p ''Failed to get HMAC digest size'' w)
                else
                 (case malloc digest_size w of
                    (None, w1) \<Rightarrow> leaving rets (log_oom_debug w1)
                  | (Some buf, w1) \<Rightarrow>
                 (case mac_final p ctx2 digest_size of
                    None \<Rightarrow> leaving rets (log_openssl_errors p ''Failed to finalize HMAC'' w1)
                  | Some digest \<Rightarrow>
                 (case mem_write buf digest of
                    None \<Rightarrow> (Undefined, rets, w1)
                  | Some buf' \<Rightarrow>
                      let size = length digest in
                      if size \<noteq> digest_size then (Abort, rets, w1)
                      else (OK,
                            (Out (Mem buf'),
                             (if ret_digest_size \<noteq> NullP then Out size else ret_digest_size)),
                            w1))))))))"

section \<open>Public keys\<close>

definition openssl_pkey_from_pem ::
  "provider \<Rightarrow> cptr \<Rightarrow> nat \<Rightarrow> evp_pkey option outp \<Rightarrow> world
     \<Rightarrow> status \<times> evp_pkey option outp \<times> world" where
  "openssl_pkey_from_pem p pem pem_size ret w =
     (if pem = NULL then (Abort, ret, w)
      else if ret = NullP then (Abort, ret, w)
      else
       (case fmemopen pem pem_size w of
          (None, w1) \<Rightarrow> leaving ret (log_oom_debug w1)
        | (Some f, w1) \<Rightarrow>
       (case PEM_read_PUBKEY p f of
          None \<Rightarrow> leaving ret (log_openssl_errors p ''Failed to parse PEM'' w1)
        | Some pkey \<Rightarrow> (OK, Out (Some pkey), w1))))"

definition rsa_encrypt_bytes ::
  "provider \<Rightarrow> evp_pkey option \<Rightarrow> cptr \<Rightarrow> nat \<Rightarrow> cptr outp \<Rightarrow> nat outp \<Rightarrow> world
     \<Rightarrow> status \<times> (cptr outp \<times> nat outp) \<times> world" where
  "rsa_encrypt_bytes p pkey decrypted_key decrypted_key_size ret_encrypt_key ret_encrypt_key_size w =
     (let rets = (ret_encrypt_key, ret_encrypt_key_size) in
       (case EVP_PKEY_CTX_new p pkey of
          None \<Rightarrow> leaving rets (log_openssl_errors p ''Failed to allocate public key context'' w)
        | Some ctx \<Rightarrow>
       (case EVP_PKEY_encrypt_init p ctx of
          None \<Rightarrow> leaving rets (log_openssl_errors p ''Failed to initialize public key context'' w)
        | Some ctx1 \<Rightarrow>
       (case EVP_PKEY_CTX_set_rsa_padding p ctx1 RSA_PKCS1_PADDING of
          None \<Rightarrow> leaving rets (log_openssl_errors p ''Failed to configure PKCS#1 padding'' w)
        | Some ctx2 \<Rightarrow>
       (case EVP_PKEY_encrypt p ctx2 None decrypted_key decrypted_key_size of
          None \<Rightarrow> leaving rets (log_openssl_errors p ''Failed to determine encrypted key size'' w)
        | Some (l, unwritten) \<Rightarrow>
       (case malloc l w of
          (None, w1) \<Rightarrow> (Error ENOMEM, rets, w1)
        | (Some b, w1) \<Rightarrow>
       (case EVP_PKEY_encrypt p ctx2 (Some l) decrypted_key decrypted_key_size of
          None \<Rightarrow> leaving rets (log_openssl_errors p ''Failed to determine encrypted key size'' w1)
        | Some (l1, written) \<Rightarrow>
       (case mem_write b written of
          None \<Rightarrow> (Undefined, rets, w1)
        | Some b1 \<Rightarrow>
       (case ret_encrypt_key of
          NullP \<Rightarrow> (Undefined, rets, w1)
        | Out old_key \<Rightarrow>
       (case ret_encrypt_key_size of
          NullP \<Rightarrow> (Undefined, (Out (Mem b1), ret_encrypt_key_size), w1)
        | Out old_size \<Rightarrow> (OK, (Out (Mem b1), Out l1), w1)))))))))))"

definition rsa_pkey_to_suitable_key_size ::
  "provider \<Rightarrow> evp_pkey option \<Rightarrow> nat outp \<Rightarrow> world \<Rightarrow> status \<times> nat outp \<times> world" where
  "rsa_pkey_to_suitable_key_size p pkey ret_suitable_key_size w =
     (case pkey of
        None \<Rightarrow> (Abort, ret_suitable_key_size, w)
      | Some k \<Rightarrow>
          if ret_suitable_key_size = NullP then (Abort, ret_suitable_key_size, w)
          else if EVP_PKEY_base_id p k \<noteq> EVP_PKEY_RSA
          then leaving ret_suitable_key_size
                 (log_debug_errno EBADMSG ''X.509 certificate does not refer to RSA key.'' w)
          else
            let bits = EVP_PKEY_bits p k;
                w1 = log_debug ''Bits in RSA key: %i'' w;
                suitable_key_size = size_t_of_int (c_div (c_div bits 8) 2)
            in if suitable_key_size < 1
               then leaving ret_suitable_key_size
                      (log_debug_errno EIO ''Uh, RSA key size too short?'' w1)
               else (OK, Out suitable_key_size, w1))"

text \<open>
  The conditional block of \<^verbatim>\<open>rsa_pkey_from_n_e\<close>: the key built from the two numbers,
  or the error to return.
\<close>

definition rsa_pkey_build ::
  "provider \<Rightarrow> evp_pkey_ctx \<Rightarrow> bignum \<Rightarrow> bignum \<Rightarrow> world \<Rightarrow> (status \<times> world) + evp_pkey" where
  "rsa_pkey_build p ctx bn_n bn_e w =
     (if 3 \<le> OPENSSL_VERSION_MAJOR p then
       (case EVP_PKEY_fromdata_init p ctx of
          None \<Rightarrow> Inl (log_openssl_errors p ''Failed to initialize EVP_PKEY_CTX'' w)
        | Some ctx1 \<Rightarrow>
       (case OSSL_PARAM_BLD_new p of
          None \<Rightarrow> Inl (log_openssl_errors p ''Failed to create new OSSL_PARAM_BLD'' w)
        | Some bld \<Rightarrow>
       (case OSSL_PARAM_BLD_push_BN p bld OSSL_PKEY_PARAM_RSA_N bn_n of
          None \<Rightarrow> Inl (log_openssl_errors p ''Failed to set RSA OSSL_PKEY_PARAM_RSA_N'' w)
        | Some bld1 \<Rightarrow>
       (case OSSL_PARAM_BLD_push_BN p bld1 OSSL_PKEY_PARAM_RSA_E bn_e of
          None \<Rightarrow> Inl (log_openssl_errors p ''Failed to set RSA OSSL_PKEY_PARAM_RSA_E'' w)
        | Some bld2 \<Rightarrow>
       (case OSSL_PARAM_BLD_to_param p bld2 of
          None \<Rightarrow> Inl (log_openssl_errors p ''Failed to build RSA OSSL_PARAM'' w)
        | Some params \<Rightarrow>
       (case EVP_PKEY_fromdata p ctx1 EVP_PKEY_PUBLIC_KEY params of
          None \<Rightarrow> Inl (log_openssl_errors p ''Failed to create RSA EVP_PKEY'' w)
        | Some pkey \<Rightarrow> Inr pkey))))))
      else
       (case RSA_new p of
          None \<Rightarrow> Inl (log_openssl_errors p ''Failed to create new RSA'' w)
        | Some rsa_key \<Rightarrow>
       (case RSA_set0_key p rsa_key bn_n bn_e of
          None \<Rightarrow> Inl (log_openssl_errors p ''Failed to set RSA n/e'' w)
        | Some rsa_key1 \<Rightarrow>
       (case EVP_PKEY_new p of
          None \<Rightarrow> Inl (log_openssl_errors p ''Failed to create new EVP_PKEY'' w)
        | Some pkey \<Rightarrow>
       (case EVP_PKEY_assign_RSA p pkey rsa_key1 of
          None \<Rightarrow> Inl (log_openssl_errors p ''Failed to assign RSA key'' w)
        | Some pkey1 \<Rightarrow> Inr pkey1)))))"

definition rsa_pkey_from_n_e ::
  "provider \<Rightarrow> cptr \<Rightarrow> nat \<Rightarrow> cptr \<Rightarrow> nat \<Rightarrow> evp_pkey option outp \<Rightarrow> world
     \<Rightarrow> status \<times> evp_pkey option outp \<times> world" where
  "rsa_pkey_from_n_e p n n_size e e_size ret w =
     (if n = NULL \<or> e = NULL \<or> ret = NullP then (Abort, ret, w)
      else
       (case EVP_PKEY_CTX_new_id p EVP_PKEY_RSA of
          None \<Rightarrow> leaving ret (log_openssl_errors p ''Failed to create new EVP_PKEY_CTX'' w)
        | Some ctx \<Rightarrow>
       (case BN_bin2bn p n (int_of_size_t n_size) of
          None \<Rightarrow> leaving ret (log_openssl_errors p ''Failed to create BIGNUM for RSA n'' w)
        | Some bn_n \<Rightarrow>
       (case BN_bin2bn p e (int_of_size_t e_size) of
          None \<Rightarrow> leaving ret (log_openssl_errors p ''Failed to create BIGNUM for RSA e'' w)
        | Some bn_e \<Rightarrow>
       (case rsa_pkey_build p ctx bn_n bn_e w of
          Inl rw \<Rightarrow> leaving ret rw
        | Inr pkey \<Rightarrow> (OK, Out (Some pkey), w))))))"

text \<open>The conditional block of \<^verbatim>\<open>rsa_pkey_to_n_e\<close>: the two numbers of the key, or the error to return.\<close>

definition rsa_pkey_get_n_e ::
  "provider \<Rightarrow> evp_pkey \<Rightarrow> world \<Rightarrow> (status \<times> world) + (bignum \<times> bignum)" where
  "rsa_pkey_get_n_e p pkey w =
     (if 3 \<le> OPENSSL_VERSION_MAJOR p then
       (case EVP_PKEY_get_bn_param p pkey OSSL_PKEY_PARAM_RSA_N of
          None \<Rightarrow> Inl (log_openssl_errors p ''Failed to get RSA n'' w)
        | Some bn_n \<Rightarrow>
       (case EVP_PKEY_get_bn_param p pkey OSSL_PKEY_PARAM_RSA_E of
          None \<Rightarrow> Inl (log_openssl_errors p ''Failed to get RSA e'' w)
        | Some bn_e \<Rightarrow> Inr (bn_n, bn_e)))
      else
       (case EVP_PKEY_get0_RSA p pkey of
          None \<Rightarrow> Inl (log_openssl_errors p ''Failed to get RSA key from public key'' w)
        | Some rsa_key \<Rightarrow>
       (case RSA_get0_n p rsa_key of
          None \<Rightarrow> Inl (log_openssl_errors p ''Failed to get RSA n'' w)
        | Some bn_n \<Rightarrow>
       (case RSA_get0_e p rsa_key of
          None \<Rightarrow> Inl (log_openssl_errors p ''Failed to get RSA e'' w)
        | Some bn_e \<Rightarrow> Inr (bn_n, bn_e)))))"

definition rsa_pkey_to_n_e ::
  "provider \<Rightarrow> evp_pkey option \<Rightarrow> cptr outp \<Rightarrow> nat outp \<Rightarrow> cptr outp \<Rightarrow> nat outp \<Rightarrow> world
     \<Rightarrow> status \<times> (cptr outp \<times> nat outp \<times> cptr outp \<times> nat outp) \<times> world" where
  "rsa_pkey_to_n_e p pkey ret_n ret_n_size ret_e ret_e_size w =
     (let rets = (ret_n, ret_n_size, ret_e, ret_e_size) in
      case pkey of
        None \<Rightarrow> (Abort, rets, w)
      | Some k \<Rightarrow>
          if ret_n = NullP \<or> ret_n_size = NullP \<or> ret_e = NullP \<or> ret_e_size = NullP
          then (Abort, rets, w)
          else
           (case rsa_pkey_get_n_e p k w of
              Inl rw \<Rightarrow> leaving rets rw
            | Inr (bn_n, bn_e) \<Rightarrow>
                let n_size = size_t_of_int (BN_num_bytes bn_n);
                    e_size = size_t_of_int (BN_num_bytes bn_e)
                in
           (case malloc n_size w of
              (n, w1) \<Rightarrow>
           (case malloc e_size w1 of
              (e, w2) \<Rightarrow>
           (case n of
              None \<Rightarrow> leaving rets (log_oom_debug w2)
            | Some n_buf \<Rightarrow>
           (case e of
              None \<Rightarrow> leaving rets (log_oom_debug w2)
            | Some e_buf \<Rightarrow>
           (case mem_write n_buf (BN_bn2bin bn_n) of
              None \<Rightarrow> (Undefined, rets, w2)
            | Some n1 \<Rightarrow>
                if int (length (BN_bn2bin bn_n)) \<noteq> int_of_size_t n_size then (Abort, rets, w2)
                else
           (case mem_write e_buf (BN_bn2bin bn_e) of
              None \<Rightarrow> (Undefined, rets, w2)
            | Some e1 \<Rightarrow>
                if int (length (BN_bn2bin bn_e)) \<noteq> int_of_size_t e_size then (Abort, rets, w2)
                else (OK, (Out (Mem n1), Out n_size, Out (Mem e1), Out e_size), w2)))))))))"

text \<open>
  The conditional block of \<^verbatim>\<open>ecc_pkey_from_curve_x_y\<close>: the key built from the curve
  and the point, or what to return. A null curve name is passed on to
  \<^verbatim>\<open>OSSL_PARAM_BLD_push_utf8_string\<close> with size zero, which takes its length.
\<close>

definition ecc_pkey_build ::
  "provider \<Rightarrow> evp_pkey_ctx \<Rightarrow> int \<Rightarrow> ec_group \<Rightarrow> ec_point \<Rightarrow> world \<Rightarrow> (status \<times> world) + evp_pkey" where
  "ecc_pkey_build p ctx curve_id grp point w =
     (if 3 \<le> OPENSSL_VERSION_MAJOR p then
       (case EVP_PKEY_fromdata_init p ctx of
          None \<Rightarrow> Inl (log_openssl_errors p ''Failed to initialize EVP_PKEY_CTX'' w)
        | Some ctx1 \<Rightarrow>
       (case OSSL_PARAM_BLD_new p of
          None \<Rightarrow> Inl (log_openssl_errors p ''Failed to create new OSSL_PARAM_BLD'' w)
        | Some bld \<Rightarrow>
       (case OSSL_EC_curve_nid2name p curve_id of
          None \<Rightarrow> Inl (Undefined, w)
        | Some name \<Rightarrow>
       (case OSSL_PARAM_BLD_push_utf8_string p bld OSSL_PKEY_PARAM_GROUP_NAME name of
          None \<Rightarrow> Inl (log_openssl_errors p ''Failed to add ECC OSSL_PKEY_PARAM_GROUP_NAME'' w)
        | Some bld1 \<Rightarrow>
            let pbuf = EC_POINT_point2buf p grp point POINT_CONVERSION_UNCOMPRESSED;
                pbuf_len = length pbuf
            in if pbuf_len = 0
               then Inl (log_openssl_errors p ''Failed to convert ECC point to buffer'' w)
               else
       (case OSSL_PARAM_BLD_push_octet_string p bld1 OSSL_PKEY_PARAM_PUB_KEY pbuf of
          None \<Rightarrow> Inl (log_openssl_errors p ''Failed to add ECC OSSL_PKEY_PARAM_PUB_KEY'' w)
        | Some bld2 \<Rightarrow>
       (case OSSL_PARAM_BLD_to_param p bld2 of
          None \<Rightarrow> Inl (log_openssl_errors p ''Failed to build ECC OSSL_PARAM'' w)
        | Some params \<Rightarrow>
       (case EVP_PKEY_fromdata p ctx1 EVP_PKEY_PUBLIC_KEY params of
          None \<Rightarrow> Inl (log_openssl_errors p ''Failed to create ECC EVP_PKEY'' w)
        | Some pkey \<Rightarrow> Inr pkey)))))))
      else
       (case EC_KEY_new p of
          None \<Rightarrow> Inl (log_openssl_errors p ''Failed to create new EC_KEY'' w)
        | Some eckey \<Rightarrow>
       (case EC_KEY_set_group p eckey grp of
          None \<Rightarrow> Inl (log_openssl_errors p ''Failed to set ECC group'' w)
        | Some eckey1 \<Rightarrow>
       (case EC_KEY_set_public_key p eckey1 point of
          None \<Rightarrow> Inl (log_openssl_errors p ''Failed to set ECC point'' w)
        | Some eckey2 \<Rightarrow>
       (case EVP_PKEY_new p of
          None \<Rightarrow> Inl (log_openssl_errors p ''Failed to create new EVP_PKEY'' w)
        | Some pkey \<Rightarrow>
       (case EVP_PKEY_assign_EC_KEY p pkey eckey2 of
          None \<Rightarrow> Inl (log_openssl_errors p ''Failed to assign ECC key'' w)
        | Some pkey1 \<Rightarrow> Inr pkey1))))))"

definition ecc_pkey_from_curve_x_y ::
  "provider \<Rightarrow> int \<Rightarrow> cptr \<Rightarrow> nat \<Rightarrow> cptr \<Rightarrow> nat \<Rightarrow> evp_pkey option outp \<Rightarrow> world
     \<Rightarrow> status \<times> evp_pkey option outp \<times> world" where
  "ecc_pkey_from_curve_x_y p curve_id x x_size y y_size ret w =
     (if x = NULL \<or> y = NULL \<or> ret = NullP then (Abort, ret, w)
      else
       (case EVP_PKEY_CTX_new_id p EVP_PKEY_EC of
          None \<Rightarrow> leaving ret (log_openssl_errors p ''Failed to create new EVP_PKEY_CTX'' w)
        | Some ctx \<Rightarrow>
       (case BN_bin2bn p x (int_of_size_t x_size) of
          None \<Rightarrow> leaving ret (log_openssl_errors p ''Failed to create BIGNUM x'' w)
        | Some bn_x \<Rightarrow>
       (case BN_bin2bn p y (int_of_size_t y_size) of
          None \<Rightarrow> leaving ret (log_openssl_errors p ''Failed to create BIGNUM y'' w)
        | Some bn_y \<Rightarrow>
       (case EC_GROUP_new_by_curve_name p curve_id of
          None \<Rightarrow> leaving ret (log_openssl_errors p ''ECC curve id %d not supported'' w)
        | Some grp \<Rightarrow>
       (case EC_POINT_new p grp of
          None \<Rightarrow> leaving ret (log_openssl_errors p ''Failed to create new EC_POINT'' w)
        | Some point \<Rightarrow>
       (case EC_POINT_set_affine_coordinates p grp point bn_x bn_y of
          None \<Rightarrow> leaving ret (log_openssl_errors p ''Failed to set ECC coordinates'' w)
        | Some point1 \<Rightarrow>
       (case ecc_pkey_build p ctx curve_id grp point1 w of
          Inl rw \<Rightarrow> leaving ret rw
        | Inr pkey \<Rightarrow> (OK, Out (Some pkey), w)))))))))"

text \<open>
  The conditional block of \<^verbatim>\<open>ecc_pkey_to_curve_x_y\<close>: the curve and the two coordinates
  of the key, or what to return.
\<close>

definition ecc_pkey_get_curve_x_y ::
  "provider \<Rightarrow> evp_pkey \<Rightarrow> world \<Rightarrow> (status \<times> world) + (int \<times> bignum \<times> bignum \<times> world)" where
  "ecc_pkey_get_curve_x_y p pkey w =
     (if 3 \<le> OPENSSL_VERSION_MAJOR p then
       (case EVP_PKEY_get_utf8_string_param p pkey OSSL_PKEY_PARAM_GROUP_NAME None of
          None \<Rightarrow> Inl (log_openssl_errors p ''Failed to get ECC group name size'' w)
        | Some (unwritten, name_size) \<Rightarrow>
       (case malloc ((name_size + 1) mod 2 ^ 64) w of
          (None, w1) \<Rightarrow> Inl (log_oom_debug w1)
        | (Some name_buf, w1) \<Rightarrow>
       (case EVP_PKEY_get_utf8_string_param p pkey OSSL_PKEY_PARAM_GROUP_NAME
               (Some ((name_size + 1) mod 2 ^ 64)) of
          None \<Rightarrow> Inl (log_openssl_errors p ''Failed to get ECC group name'' w1)
        | Some (name, reported) \<Rightarrow>
            if length name_buf \<le> length name then Inl (Undefined, w1)
            else
              let curve_id = OBJ_sn2nid p name in
              if curve_id = NID_undef
              then Inl (log_openssl_errors p ''Failed to get ECC curve id'' w1)
              else
       (case EVP_PKEY_get_bn_param p pkey OSSL_PKEY_PARAM_EC_PUB_X of
          None \<Rightarrow> Inl (log_openssl_errors p ''Failed to get ECC point x'' w1)
        | Some bn_x \<Rightarrow>
       (case EVP_PKEY_get_bn_param p pkey OSSL_PKEY_PARAM_EC_PUB_Y of
          None \<Rightarrow> Inl (log_openssl_errors p ''Failed to get ECC point y'' w1)
        | Some bn_y \<Rightarrow> Inr (curve_id, bn_x, bn_y, w1))))))
      else
       (case EVP_PKEY_get0_EC_KEY p pkey of
          None \<Rightarrow> Inl (log_openssl_errors p ''Failed to get EC_KEY'' w)
        | Some eckey \<Rightarrow>
       (case EC_KEY_get0_group p eckey of
          None \<Rightarrow> Inl (log_openssl_errors p ''Failed to get EC_GROUP'' w)
        | Some grp \<Rightarrow>
            let curve_id = EC_GROUP_get_curve_name p grp in
            if curve_id = NID_undef
            then Inl (log_openssl_errors p ''Failed to get ECC curve id'' w)
            else
       (case EC_KEY_get0_public_key p eckey of
          None \<Rightarrow> Inl (log_openssl_errors p ''Failed to get EC_POINT'' w)
        | Some point \<Rightarrow>
       (case BN_new p of
          None \<Rightarrow> Inl (log_openssl_errors p ''Failed to create new BIGNUM'' w)
        | Some bn_x0 \<Rightarrow>
       (case BN_new p of
          None \<Rightarrow> Inl (log_openssl_errors p ''Failed to create new BIGNUM'' w)
        | Some bn_y0 \<Rightarrow>
       (case EC_POINT_get_affine_coordinates p grp point of
          None \<Rightarrow> Inl (log_openssl_errors p ''Failed to get ECC x/y.'' w)
        | Some (bn_x, bn_y) \<Rightarrow> Inr (curve_id, bn_x, bn_y, w))))))))"

definition ecc_pkey_to_curve_x_y ::
  "provider \<Rightarrow> evp_pkey option \<Rightarrow> int outp \<Rightarrow> cptr outp \<Rightarrow> nat outp \<Rightarrow> cptr outp \<Rightarrow> nat outp \<Rightarrow> world
     \<Rightarrow> status \<times> (int outp \<times> cptr outp \<times> nat outp \<times> cptr outp \<times> nat outp) \<times> world" where
  "ecc_pkey_to_curve_x_y p pkey ret_curve_id ret_x ret_x_size ret_y ret_y_size w =
     (let rets = (ret_curve_id, ret_x, ret_x_size, ret_y, ret_y_size) in
      case pkey of
        None \<Rightarrow> (Abort, rets, w)
      | Some k \<Rightarrow>
           (case ecc_pkey_get_curve_x_y p k w of
              Inl rw \<Rightarrow> leaving rets rw
            | Inr (curve_id, bn_x, bn_y, w0) \<Rightarrow>
                let x_size = size_t_of_int (BN_num_bytes bn_x);
                    y_size = size_t_of_int (BN_num_bytes bn_y)
                in
           (case malloc x_size w0 of
              (x, w1) \<Rightarrow>
           (case malloc y_size w1 of
              (y, w2) \<Rightarrow>
           (case x of
              None \<Rightarrow> leaving rets (log_oom_debug w2)
            | Some x_buf \<Rightarrow>
           (case y of
              None \<Rightarrow> leaving rets (log_oom_debug w2)
            | Some y_buf \<Rightarrow>
           (case mem_write x_buf (BN_bn2bin bn_x) of
              None \<Rightarrow> (Undefined, rets, w2)
            | Some x1 \<Rightarrow>
                if int (length (BN_bn2bin bn_x)) \<noteq> int_of_size_t x_size then (Abort, rets, w2)
                else
           (case mem_write y_buf (BN_bn2bin bn_y) of
              None \<Rightarrow> (Undefined, rets, w2)
            | Some y1 \<Rightarrow>
                if int (length (BN_bn2bin bn_y)) \<noteq> int_of_size_t y_size then (Abort, rets, w2)
                else (OK,
                      ((if ret_curve_id \<noteq> NullP then Out curve_id else ret_curve_id),
                       (if ret_x \<noteq> NullP then Out (Mem x1) else ret_x),
                       (if ret_x_size \<noteq> NullP then Out x_size else ret_x_size),
                       (if ret_y \<noteq> NullP then Out (Mem y1) else ret_y),
                       (if ret_y_size \<noteq> NullP then Out y_size else ret_y_size)),
                      w2)))))))))"

section \<open>Fingerprints and signatures\<close>

definition unsigned_of_int :: "int \<Rightarrow> nat" where
  "unsigned_of_int i = nat (i mod 2 ^ 32)"

definition pubkey_fingerprint ::
  "provider \<Rightarrow> evp_pkey option \<Rightarrow> evp_md option \<Rightarrow> cptr outp \<Rightarrow> nat outp \<Rightarrow> world
     \<Rightarrow> status \<times> (cptr outp \<times> nat outp) \<times> world" where
  "pubkey_fingerprint p pk md ret ret_size w =
     (let rets = (ret, ret_size) in
      case pk of
        None \<Rightarrow> (Abort, rets, w)
      | Some k \<Rightarrow>
     (case md of
        None \<Rightarrow> (Abort, rets, w)
      | Some alg \<Rightarrow>
          if ret = NullP \<or> ret_size = NullP then (Abort, rets, w)
          else
           (case i2d_PublicKey p k False of
              (sz, unwritten) \<Rightarrow>
                if sz < 0
                then leaving rets
                       (log_openssl_errors p ''Unable to convert public key to DER format'' w)
                else
           (case malloc (size_t_of_int sz) w of
              (None, w1) \<Rightarrow> leaving rets (log_oom_debug w1)
            | (Some d, w1) \<Rightarrow>
           (case i2d_PublicKey p k True of
              (lsz, der) \<Rightarrow>
           (case mem_write d der of
              None \<Rightarrow> (Undefined, rets, w1)
            | Some d1 \<Rightarrow>
                if lsz < 0
                then leaving rets
                       (log_openssl_errors p ''Unable to convert public key to DER format'' w1)
                else
           (case EVP_MD_CTX_new p of
              None \<Rightarrow> leaving rets (log_openssl_errors p ''Failed to create new EVP_MD_CTX'' w1)
            | Some m \<Rightarrow>
           (case EVP_DigestInit_ex p m alg of
              None \<Rightarrow> leaving rets (log_openssl_errors p ''Failed to initialize %s context'' w1)
            | Some m1 \<Rightarrow>
           (case EVP_DigestUpdate p m1 (Mem d1) (size_t_of_int lsz) of
              None \<Rightarrow> leaving rets (log_openssl_errors p ''Failed to run %s context'' w1)
            | Some m2 \<Rightarrow>
                let msz = EVP_MD_get_size p alg in
                if \<not> 0 < msz then (Abort, rets, w1)
                else
           (case malloc (size_t_of_int msz) w1 of
              (None, w2) \<Rightarrow> leaving rets (log_oom_debug w2)
            | (Some h, w2) \<Rightarrow>
           (case EVP_DigestFinal_ex p m2 of
              None \<Rightarrow> leaving rets (log_openssl_errors p ''Failed to finalize hash context'' w2)
            | Some digest \<Rightarrow>
           (case mem_write h digest of
              None \<Rightarrow> (Undefined, rets, w2)
            | Some h1 \<Rightarrow>
                let umsz = length digest in
                if umsz \<noteq> unsigned_of_int msz then (Abort, rets, w2)
                else (OK, (Out (Mem h1), Out (size_t_of_int msz)), w2)))))))))))))"

text \<open>
  The first statement of \<^verbatim>\<open>digest_and_sign\<close>: the \<open>(data, size)\<close> pair the rest of the
  function works with. The string literal \<^verbatim>\<open>""\<close> is a region holding one zero byte.
\<close>

definition digest_and_sign_input :: "cptr \<Rightarrow> nat \<Rightarrow> status + (cptr \<times> nat)" where
  "digest_and_sign_input data size_arg =
     (if size_arg = 0 then Inr (Mem [0], size_arg)
      else
        case data of
          NULL \<Rightarrow> Inl Abort
        | Mem r \<Rightarrow>
            if size_arg = SIZE_MAX
            then (case strlen r of
                    None \<Rightarrow> Inl Undefined
                  | Some n \<Rightarrow> Inr (data, n))
            else Inr (data, size_arg))"

text \<open>A call of \<^verbatim>\<open>EVP_DigestSign\<close>, recorded in the trace.\<close>

definition EVP_DigestSign_call ::
  "provider \<Rightarrow> evp_md_ctx \<Rightarrow> nat option \<Rightarrow> cptr \<Rightarrow> nat \<Rightarrow> world \<Rightarrow> (nat \<times> bytes) option \<times> world" where
  "EVP_DigestSign_call p ctx sig data data_size w =
     (EVP_DigestSign p ctx sig data data_size,
      w\<lparr>sign_trace := sign_trace w @ [(data, data_size)]\<rparr>)"

definition digest_and_sign ::
  "provider \<Rightarrow> evp_md option \<Rightarrow> evp_pkey option \<Rightarrow> cptr \<Rightarrow> nat \<Rightarrow> cptr outp \<Rightarrow> nat outp \<Rightarrow> world
     \<Rightarrow> status \<times> (cptr outp \<times> nat outp) \<times> world" where
  "digest_and_sign p md privkey data size_arg ret ret_size w =
     (let rets = (ret, ret_size) in
      case privkey of
        None \<Rightarrow> (Abort, rets, w)
      | Some key \<Rightarrow>
          if ret = NullP \<or> ret_size = NullP then (Abort, rets, w)
          else
           (case digest_and_sign_input data size_arg of
              Inl r \<Rightarrow> (r, rets, w)
            | Inr (data1, size1) \<Rightarrow>
           (case EVP_MD_CTX_new p of
              None \<Rightarrow> leaving rets (log_openssl_errors p ''Failed to create new EVP_MD_CTX'' w)
            | Some mdctx \<Rightarrow>
           (case EVP_DigestSignInit p mdctx md key of
              None \<Rightarrow>
                leaving rets (log_openssl_errors p ''Failed to initialize signature context'' w)
            | Some mdctx1 \<Rightarrow>
           (case EVP_DigestSign_call p mdctx1 None data1 size1 w of
              (None, w1) \<Rightarrow>
                leaving rets (log_openssl_errors p ''Failed to determine size of signature'' w1)
            | (Some (ss, unwritten), w1) \<Rightarrow>
           (case malloc ss w1 of
              (None, w2) \<Rightarrow> leaving rets (log_oom_debug w2)
            | (Some sig, w2) \<Rightarrow>
           (case EVP_DigestSign_call p mdctx1 (Some ss) data1 size1 w2 of
              (None, w3) \<Rightarrow> leaving rets (log_openssl_errors p ''Failed to sign data'' w3)
            | (Some (ss1, written), w3) \<Rightarrow>
           (case mem_write sig written of
              None \<Rightarrow> (Undefined, rets, w3)
            | Some sig1 \<Rightarrow> (OK, (Out (Mem sig1), Out ss1), w3)))))))))"

section \<open>Vocabulary of the properties\<close>

text \<open>The next allocation fails: the first entry of the plan says so.\<close>

definition next_malloc_fails :: "world \<Rightarrow> bool" where
  "next_malloc_fails w = (case malloc_plan w of [] \<Rightarrow> False | ok # plan \<Rightarrow> \<not> ok)"

text \<open>A call failed with an error of the given kind.\<close>

definition fails_with :: "status \<Rightarrow> error_kind \<Rightarrow> bool" where
  "fails_with r k = (case r of Error e \<Rightarrow> error_kind_of e = k | _ \<Rightarrow> False)"

section \<open>A provider to run the functions on\<close>

text \<open>
  A small provider for concrete runs. It knows three digests, numbered by their size
  (\<open>shake128\<close> reports size zero), signs and encrypts with fixed bytes, parses no PEM,
  keeps a key as the parameters it was built from, and knows one curve,
  \<open>prime256v1\<close> (NID 415), on which it accepts the base point only.
\<close>

definition P256_Gx_bytes :: bytes where
  "P256_Gx_bytes =
     [
      107, 23, 209, 242, 225, 44, 66, 71,
      248, 188, 230, 229, 99, 164, 64, 242,
      119, 3, 125, 129, 45, 235, 51, 160,
      244, 161, 57, 69, 216, 152, 194, 150]"

definition P256_Gy_bytes :: bytes where
  "P256_Gy_bytes =
     [
      79, 227, 66, 226, 254, 26, 127, 155,
      142, 231, 235, 74, 124, 15, 158, 22,
      43, 206, 51, 87, 107, 49, 94, 206,
      203, 182, 64, 104, 55, 191, 81, 245]"

definition P256_Gx :: nat where
  "P256_Gx = bin2bn P256_Gx_bytes"

definition P256_Gy :: nat where
  "P256_Gy = bin2bn P256_Gy_bytes"

definition test_md_by_name :: "string \<Rightarrow> evp_md option" where
  "test_md_by_name name =
     (if name = ''sha256'' then Some (EVP_MD 32)
      else if name = ''sha1'' then Some (EVP_MD 20)
      else if name = ''shake128'' then Some (EVP_MD 0)
      else None)"

definition test_point2buf :: "ec_point \<Rightarrow> bytes" where
  "test_point2buf pt =
     (case pt of
        EC_POINT None \<Rightarrow> []
      | EC_POINT (Some (x, y)) \<Rightarrow> 4 # BN_bn2bin x @ BN_bn2bin y)"

definition test_fromdata :: "evp_pkey_ctx \<Rightarrow> int \<Rightarrow> ossl_param list \<Rightarrow> evp_pkey option" where
  "test_fromdata ctx selection params =
     (case ctx of
        EVP_PKEY_CTX kid \<Rightarrow>
          if kid = 6 then
            (case (map_of params ''n'', map_of params ''e'') of
               (Some (BN n), Some (BN e)) \<Rightarrow>
                 if 0 < n \<and> 0 < e then Some (EVP_PKEY_data 6 params) else None
             | _ \<Rightarrow> None)
          else if kid = 408 then
            (case (map_of params ''group'', map_of params ''pub'') of
               (Some (Utf8_string name), Some (Octet_string buf)) \<Rightarrow>
                 if name = ''prime256v1'' \<and> buf = test_point2buf (EC_POINT (Some (P256_Gx, P256_Gy)))
                 then Some (EVP_PKEY_data 408 params) else None
             | _ \<Rightarrow> None)
          else None)"

definition test_get_bn_param :: "evp_pkey \<Rightarrow> string \<Rightarrow> bignum option" where
  "test_get_bn_param k name =
     (case k of
        EVP_PKEY_data kid ps \<Rightarrow>
          if kid = 6 then
            (case map_of ps name of Some (BN v) \<Rightarrow> Some v | _ \<Rightarrow> None)
          else if kid = 408 then
            (case map_of ps ''pub'' of
               Some (Octet_string buf) \<Rightarrow>
                 if name = ''qx'' then Some (bin2bn (take 32 (tl buf)))
                 else if name = ''qy'' then Some (bin2bn (drop 33 buf))
                 else None
             | _ \<Rightarrow> None)
          else None
      | _ \<Rightarrow> None)"

definition test_get_utf8_string_param :: "evp_pkey \<Rightarrow> string \<Rightarrow> nat option \<Rightarrow> (string \<times> nat) option" where
  "test_get_utf8_string_param k name cap =
     (case k of
        EVP_PKEY_data kid ps \<Rightarrow>
          (case map_of ps name of
             Some (Utf8_string s) \<Rightarrow>
               (case cap of
                  None \<Rightarrow> Some ([], length s)
                | Some c \<Rightarrow> if length s < c then Some (s, length s) else None)
           | _ \<Rightarrow> None)
      | _ \<Rightarrow> None)"

definition test_bits :: "evp_pkey \<Rightarrow> int" where
  "test_bits k =
     (case k of
        EVP_PKEY_data kid ps \<Rightarrow>
          (case map_of ps ''n'' of Some (BN n) \<Rightarrow> int (BN_num_bits n) | _ \<Rightarrow> 0)
      | EVP_PKEY_rsa (RSA (Some n) e) \<Rightarrow> int (BN_num_bits n)
      | _ \<Rightarrow> 0)"

definition test_base_id :: "evp_pkey \<Rightarrow> int" where
  "test_base_id k =
     (case k of
        EVP_PKEY_none \<Rightarrow> 0
      | EVP_PKEY_rsa r \<Rightarrow> 6
      | EVP_PKEY_ec e \<Rightarrow> 408
      | EVP_PKEY_data kid ps \<Rightarrow> kid)"

definition test_provider :: provider where
  "test_provider =
     \<lparr> OPENSSL_VERSION_MAJOR = 3,
       ERR_error_string = (\<lambda>e. ''error:'' @ replicate e CHR ''I''),
       EVP_MD_fetch = test_md_by_name,
       EVP_get_digestbyname = test_md_by_name,
       EVP_MD_get_size = (\<lambda>md. case md of EVP_MD n \<Rightarrow> int n),
       EVP_MD_CTX_new = Some (EVP_MD_CTX 0),
       EVP_DigestInit_ex = (\<lambda>ctx md. case md of EVP_MD n \<Rightarrow> Some (EVP_MD_CTX n)),
       EVP_DigestUpdate = (\<lambda>ctx base len. Some ctx),
       EVP_DigestFinal_ex = (\<lambda>ctx. case ctx of EVP_MD_CTX n \<Rightarrow> Some (replicate n 171)),
       EVP_MAC_fetch = (\<lambda>name. if name = ''HMAC'' then Some (EVP_MAC 0) else None),
       EVP_MAC_CTX_new = (\<lambda>mac. Some (EVP_MAC_CTX 0)),
       EVP_MAC_init =
         (\<lambda>ctx key key_size params.
            case map_of params ''digest'' of
              Some (Utf8_string name) \<Rightarrow>
                (case test_md_by_name name of
                   Some (EVP_MD n) \<Rightarrow> Some (EVP_MAC_CTX n)
                 | None \<Rightarrow> None)
            | _ \<Rightarrow> None),
       EVP_MAC_update = (\<lambda>ctx base len. Some ctx),
       EVP_MAC_CTX_get_mac_size = (\<lambda>ctx. case ctx of EVP_MAC_CTX n \<Rightarrow> n),
       EVP_MAC_final = (\<lambda>ctx outsize. case ctx of EVP_MAC_CTX n \<Rightarrow> Some (replicate n 205)),
       HMAC_CTX_new = Some (HMAC_CTX 0),
       HMAC_Init_ex = (\<lambda>ctx key len md. case md of EVP_MD n \<Rightarrow> Some (HMAC_CTX n)),
       HMAC_Update = (\<lambda>ctx base len. Some ctx),
       HMAC_size = (\<lambda>ctx. case ctx of HMAC_CTX n \<Rightarrow> n),
       HMAC_Final = (\<lambda>ctx. case ctx of HMAC_CTX n \<Rightarrow> Some (replicate n 205)),
       BN_bin2bn_fails = (\<lambda>s. False),
       BN_new_fails = False,
       OSSL_PARAM_BLD_new_fails = False,
       OSSL_PARAM_BLD_push_fails = (\<lambda>bld param. False),
       OSSL_PARAM_BLD_to_param_fails = (\<lambda>bld. False),
       PEM_read_PUBKEY = (\<lambda>f. None),
       EVP_PKEY_CTX_new = (\<lambda>k. case k of None \<Rightarrow> None | Some key \<Rightarrow> Some (EVP_PKEY_CTX 0)),
       EVP_PKEY_CTX_new_id = (\<lambda>kid. Some (EVP_PKEY_CTX (nat kid))),
       EVP_PKEY_encrypt_init = Some,
       EVP_PKEY_CTX_set_rsa_padding = (\<lambda>ctx pad. Some ctx),
       EVP_PKEY_encrypt =
         (\<lambda>ctx out inp inlen.
            case out of
              None \<Rightarrow> Some (256, [])
            | Some cap \<Rightarrow> if cap < 256 then None else Some (256, replicate 256 238)),
       EVP_PKEY_base_id = test_base_id,
       EVP_PKEY_bits = test_bits,
       EVP_PKEY_fromdata_init = Some,
       EVP_PKEY_fromdata = test_fromdata,
       EVP_PKEY_get_bn_param = test_get_bn_param,
       EVP_PKEY_get_utf8_string_param = test_get_utf8_string_param,
       RSA_new = Some (RSA None None),
       RSA_set0_key = (\<lambda>r n e. Some (RSA (Some n) (Some e))),
       EVP_PKEY_new = Some EVP_PKEY_none,
       EVP_PKEY_assign_RSA = (\<lambda>k r. Some (EVP_PKEY_rsa r)),
       EVP_PKEY_get0_RSA = (\<lambda>k. case k of EVP_PKEY_rsa r \<Rightarrow> Some r | _ \<Rightarrow> None),
       RSA_get0_n = (\<lambda>r. case r of RSA n e \<Rightarrow> n),
       RSA_get0_e = (\<lambda>r. case r of RSA n e \<Rightarrow> e),
       i2d_PublicKey =
         (\<lambda>k with_out.
            case k of
              EVP_PKEY_none \<Rightarrow> (- 1, [])
            | _ \<Rightarrow> (4, if with_out then [48, 2, 5, 0] else [])),
       EVP_DigestSignInit =
         (\<lambda>ctx md key. case key of EVP_PKEY_none \<Rightarrow> None | _ \<Rightarrow> Some ctx),
       EVP_DigestSign =
         (\<lambda>ctx sig data data_size.
            case sig of
              None \<Rightarrow> Some (64, [])
            | Some cap \<Rightarrow> if cap < 64 then None else Some (64, replicate 64 90)),
       EC_GROUP_new_by_curve_name = (\<lambda>nid. if nid = 415 then Some (EC_GROUP 415) else None),
       EC_POINT_new = (\<lambda>grp. Some (EC_POINT None)),
       EC_POINT_set_affine_coordinates =
         (\<lambda>grp pt x y.
            if grp = EC_GROUP 415 \<and> x = P256_Gx \<and> y = P256_Gy
            then Some (EC_POINT (Some (x, y))) else None),
       OSSL_EC_curve_nid2name = (\<lambda>nid. if nid = 415 then Some ''prime256v1'' else None),
       EC_POINT_point2buf = (\<lambda>grp pt form. test_point2buf pt),
       OBJ_sn2nid = (\<lambda>name. if name = ''prime256v1'' then 415 else 0),
       EC_KEY_new = Some (EC_KEY None None),
       EC_KEY_set_group = (\<lambda>k grp. case k of EC_KEY g pt \<Rightarrow> Some (EC_KEY (Some grp) pt)),
       EC_KEY_set_public_key = (\<lambda>k pt. case k of EC_KEY g old \<Rightarrow> Some (EC_KEY g (Some pt))),
       EVP_PKEY_assign_EC_KEY = (\<lambda>k eckey. Some (EVP_PKEY_ec eckey)),
       EVP_PKEY_get0_EC_KEY = (\<lambda>k. case k of EVP_PKEY_ec eckey \<Rightarrow> Some eckey | _ \<Rightarrow> None),
       EC_KEY_get0_group = (\<lambda>k. case k of EC_KEY g pt \<Rightarrow> g),
       EC_GROUP_get_curve_name = (\<lambda>grp. case grp of EC_GROUP nid \<Rightarrow> nid),
       EC_KEY_get0_public_key = (\<lambda>k. case k of EC_KEY g pt \<Rightarrow> pt),
       EC_POINT_get_affine_coordinates = (\<lambda>grp pt. case pt of EC_POINT c \<Rightarrow> c) \<rparr>"

definition calm :: world where
  "calm = \<lparr> err_queue = [], malloc_plan = [], journal = [], sign_trace = [] \<rparr>"

text \<open>A world in which the next allocation fails.\<close>

definition out_of_memory :: world where
  "out_of_memory = \<lparr> err_queue = [], malloc_plan = [False], journal = [], sign_trace = [] \<rparr>"

section \<open>Properties\<close>

subsection \<open>The error drain\<close>

lemma loop_status:
  "fst (log_openssl_errors_loop p m fmt R w) = R \<or> fst (log_openssl_errors_loop p m fmt R w) = Error EIO"
proof (induction p m fmt R w rule: log_openssl_errors_loop.induct)
  case (1 p m fmt R w)
  show ?case
  proof (cases "err_queue w")
    case Nil
    then show ?thesis
      by (subst (1 2) log_openssl_errors_loop.simps) (simp add: ERR_get_error_def)
  next
    case (Cons e es)
    show ?thesis
    proof (cases "e = 0")
      case True
      with Cons show ?thesis
        by (subst (1 2) log_openssl_errors_loop.simps) (simp add: ERR_get_error_def)
    next
      case False
      have "ERR_get_error w = (e, w\<lparr>err_queue := es\<rparr>)"
        using Cons by (simp add: ERR_get_error_def)
      with False 1[of e "w\<lparr>err_queue := es\<rparr>" "Error EIO" "snd (log_debug_errno EIO (fmt @ '': '' @ ERR_error_string_n p e m) (w\<lparr>err_queue := es\<rparr>))"]
      show ?thesis
        by (subst (1 2) log_openssl_errors_loop.simps) (simp add: log_debug_errno_def)
    qed
  qed
qed

lemma loop_status_eq:
  "log_openssl_errors_loop p m fmt R w = (R', w') \<Longrightarrow> R' = R \<or> R' = Error EIO"
  using loop_status[of p m fmt R w] by simp

lemma log_openssl_errors_status:
  "fst (log_openssl_errors p fmt w) = (if next_malloc_fails w then Error ENOMEM else Error EIO)"
  by (auto simp: log_openssl_errors_def malloc_def next_malloc_fails_def log_oom_debug_def log_debug_errno_def Let_def split: list.splits prod.splits dest: loop_status_eq)

lemma log_openssl_errors_oom:
  "next_malloc_fails w \<Longrightarrow> snd (log_openssl_errors p fmt w) = w\<lparr>malloc_plan := tl (malloc_plan w), journal := journal w @ [(Some ENOMEM, ''Out of memory.'')]\<rparr>"
  by (auto simp: log_openssl_errors_def malloc_def next_malloc_fails_def log_oom_debug_def log_debug_errno_def Let_def split: list.splits prod.splits)

lemma log_openssl_errors_cases:
  "fst (log_openssl_errors p fmt w) = Error EIO \<or> fst (log_openssl_errors p fmt w) = Error ENOMEM"
  by (simp add: log_openssl_errors_status)

lemma log_oom_debug_status [simp]: "fst (log_oom_debug w) = Error ENOMEM"
  by (simp add: log_oom_debug_def log_debug_errno_def)

lemma log_debug_errno_status [simp]: "fst (log_debug_errno e m w) = Error e"
  by (simp add: log_debug_errno_def)

lemma leaving_simps [simp]:
  "fst (leaving outs rw) = fst rw" "fst (snd (leaving outs rw)) = outs" "snd (snd (leaving outs rw)) = snd rw"
  by (simp_all add: leaving_def)

lemma digest_size_unsupported:
  "fails_with (fst (openssl_digest_size p (Some alg) (Out old) w)) Unsupported \<longleftrightarrow> md_by_name p alg = None"
  using log_openssl_errors_cases[of p "''Failed to get Digest size''" w]
  by (auto simp: openssl_digest_size_def fails_with_def Let_def split: option.splits)

lemma digest_size_zero:
  "md_by_name p alg = Some md \<Longrightarrow> EVP_MD_get_size p md = 0 \<Longrightarrow>
   fst (openssl_digest_size p (Some alg) (Out old) w) = (if next_malloc_fails w then Error ENOMEM else Error EIO)
   \<and> fst (snd (openssl_digest_size p (Some alg) (Out old) w)) = Out old"
  by (simp add: openssl_digest_size_def Let_def size_t_of_int_def log_openssl_errors_status)

lemma digest_size_ok:
  "fst (openssl_digest_size p digest_alg ret w) = OK \<Longrightarrow>
   \<exists>alg md. digest_alg = Some alg \<and> md_by_name p alg = Some md \<and> 0 < size_t_of_int (EVP_MD_get_size p md) \<and>
      openssl_digest_size p digest_alg ret w = (OK, Out (size_t_of_int (EVP_MD_get_size p md)), w)"
  using log_openssl_errors_cases[of p "''Failed to get Digest size''" w]
  by (auto simp: openssl_digest_size_def Let_def split: option.splits if_splits)

text \<open>
  C4, as the specification states it: the error drain returns an error of the I/O kind
  on every invocation. It does not when its diagnostic buffer cannot be allocated: with
  two errors queued and the allocation failing, the result is \<^verbatim>\<open>-ENOMEM\<close>, which is of
  the out-of-memory kind.
\<close>

theorem log_openssl_errors_io_kind_counterexample:
  "fails_with (fst (log_openssl_errors test_provider ''Failed to parse PEM''
      \<lparr> err_queue = [7, 9], malloc_plan = [False], journal = [], sign_trace = [] \<rparr>)) OutOfMemory
   \<and> \<not> fails_with (fst (log_openssl_errors test_provider ''Failed to parse PEM''
      \<lparr> err_queue = [7, 9], malloc_plan = [False], journal = [], sign_trace = [] \<rparr>)) IoError"
  by (simp add: log_openssl_errors_def malloc_def log_oom_debug_def log_debug_errno_def
      fails_with_def)

text \<open>
  C4, amended: for every invocation and every state of the error queue, the error drain
  never returns success. It returns an error of the I/O kind whenever its diagnostic
  buffer is allocated, whatever the queue holds. When the buffer cannot be allocated, it
  logs and returns out-of-memory at once, and no queued error has been popped.
\<close>

theorem log_openssl_errors_never_succeeds:
  "fst (log_openssl_errors p fmt w) \<noteq> OK
   \<and> (\<not> next_malloc_fails w \<longrightarrow> fails_with (fst (log_openssl_errors p fmt w)) IoError)
   \<and> (next_malloc_fails w \<longrightarrow>
        fails_with (fst (log_openssl_errors p fmt w)) OutOfMemory
        \<and> err_queue (snd (log_openssl_errors p fmt w)) = err_queue w
        \<and> journal (snd (log_openssl_errors p fmt w)) = journal w @ [(Some ENOMEM, ''Out of memory.'')])"
  by (simp add: log_openssl_errors_status log_openssl_errors_oom fails_with_def)

theorem log_openssl_errors_never_succeeds_witness:
  "\<not> next_malloc_fails \<lparr> err_queue = [7, 9], malloc_plan = [True], journal = [], sign_trace = [] \<rparr>
   \<and> fails_with (fst (log_openssl_errors test_provider ''Failed to parse PEM''
        \<lparr> err_queue = [7, 9], malloc_plan = [True], journal = [], sign_trace = [] \<rparr>)) IoError
   \<and> next_malloc_fails \<lparr> err_queue = [7, 9], malloc_plan = [False], journal = [], sign_trace = [] \<rparr>
   \<and> fails_with (fst (log_openssl_errors test_provider ''Failed to parse PEM''
        \<lparr> err_queue = [7, 9], malloc_plan = [False], journal = [], sign_trace = [] \<rparr>)) OutOfMemory
   \<and> err_queue (snd (log_openssl_errors test_provider ''Failed to parse PEM''
        \<lparr> err_queue = [7, 9], malloc_plan = [False], journal = [], sign_trace = [] \<rparr>)) = [7, 9]"
  using log_openssl_errors_never_succeeds
          [of test_provider "''Failed to parse PEM''"
              "\<lparr> err_queue = [7, 9], malloc_plan = [True], journal = [], sign_trace = [] \<rparr>"]
        log_openssl_errors_never_succeeds
          [of test_provider "''Failed to parse PEM''"
              "\<lparr> err_queue = [7, 9], malloc_plan = [False], journal = [], sign_trace = [] \<rparr>"]
  by (simp add: next_malloc_fails_def)

subsection \<open>Digest size\<close>

text \<open>
  C5, as the specification states it: when the name resolves and the provider reports a
  digest size of zero, \<open>openssl_digest_size\<close> fails with an error of the I/O kind. The
  failure is returned through the error drain, so with the drain's allocation failing
  the error is of the out-of-memory kind.
\<close>

theorem openssl_digest_size_zero_counterexample:
  "md_by_name test_provider ''shake128'' = Some (EVP_MD 0)
   \<and> EVP_MD_get_size test_provider (EVP_MD 0) = 0
   \<and> fails_with (fst (openssl_digest_size test_provider (Some ''shake128'') (Out 0) out_of_memory)) OutOfMemory
   \<and> \<not> fails_with (fst (openssl_digest_size test_provider (Some ''shake128'') (Out 0) out_of_memory)) IoError"
  by (simp add: openssl_digest_size_def md_by_name_def test_provider_def test_md_by_name_def
      size_t_of_int_def log_openssl_errors_status next_malloc_fails_def out_of_memory_def fails_with_def)

text \<open>
  C5, amended: for every algorithm name, \<open>openssl_digest_size\<close> fails with
  \<open>Unsupported\<close> exactly when the provider cannot resolve the name. When the name
  resolves and the provider reports a digest size of zero it never succeeds and writes
  nothing: it fails with an error of the I/O kind, or of the out-of-memory kind when the
  error drain cannot allocate its buffer. On success it has written a size that is
  strictly positive.
\<close>

theorem openssl_digest_size_outcomes:
  "(fails_with (fst (openssl_digest_size p (Some alg) (Out old) w)) Unsupported
      \<longleftrightarrow> md_by_name p alg = None)
   \<and> (\<forall>md. md_by_name p alg = Some md \<and> EVP_MD_get_size p md = 0 \<longrightarrow>
          fst (openssl_digest_size p (Some alg) (Out old) w) \<noteq> OK
          \<and> fst (snd (openssl_digest_size p (Some alg) (Out old) w)) = Out old
          \<and> (if next_malloc_fails w
              then fails_with (fst (openssl_digest_size p (Some alg) (Out old) w)) OutOfMemory
              else fails_with (fst (openssl_digest_size p (Some alg) (Out old) w)) IoError))
   \<and> (fst (openssl_digest_size p (Some alg) (Out old) w) = OK \<longrightarrow>
          (\<exists>n. fst (snd (openssl_digest_size p (Some alg) (Out old) w)) = Out n \<and> 0 < n))"
proof (intro conjI allI impI)
  show "fails_with (fst (openssl_digest_size p (Some alg) (Out old) w)) Unsupported
      \<longleftrightarrow> md_by_name p alg = None"
    by (rule digest_size_unsupported)
next
  fix md assume "md_by_name p alg = Some md \<and> EVP_MD_get_size p md = 0"
  then have *: "fst (openssl_digest_size p (Some alg) (Out old) w) = (if next_malloc_fails w then Error ENOMEM else Error EIO)
   \<and> fst (snd (openssl_digest_size p (Some alg) (Out old) w)) = Out old"
    using digest_size_zero by blast
  show "fst (openssl_digest_size p (Some alg) (Out old) w) \<noteq> OK" using * by simp
  show "fst (snd (openssl_digest_size p (Some alg) (Out old) w)) = Out old" using * by simp
  show "if next_malloc_fails w
              then fails_with (fst (openssl_digest_size p (Some alg) (Out old) w)) OutOfMemory
              else fails_with (fst (openssl_digest_size p (Some alg) (Out old) w)) IoError"
    using * by (simp add: fails_with_def)
next
  assume "fst (openssl_digest_size p (Some alg) (Out old) w) = OK"
  from digest_size_ok[OF this]
  show "\<exists>n. fst (snd (openssl_digest_size p (Some alg) (Out old) w)) = Out n \<and> 0 < n"
    by auto
qed

theorem openssl_digest_size_outcomes_witness:
  "md_by_name test_provider ''shake128'' = Some (EVP_MD 0)
   \<and> EVP_MD_get_size test_provider (EVP_MD 0) = 0
   \<and> fails_with (fst (openssl_digest_size test_provider (Some ''shake128'') (Out 0) calm)) IoError
   \<and> fst (snd (openssl_digest_size test_provider (Some ''shake128'') (Out 0) calm)) = Out 0
   \<and> fst (openssl_digest_size test_provider (Some ''sha256'') (Out 0) calm) = OK
   \<and> fst (snd (openssl_digest_size test_provider (Some ''sha256'') (Out 0) calm)) = Out 32
   \<and> fails_with (fst (openssl_digest_size test_provider (Some ''md5'') (Out 0) calm)) Unsupported"
  using openssl_digest_size_outcomes [of test_provider "''shake128''" 0 calm]
        openssl_digest_size_outcomes [of test_provider "''sha256''" 0 calm]
        openssl_digest_size_outcomes [of test_provider "''md5''" 0 calm]
  by (simp add: openssl_digest_size_def md_by_name_def test_provider_def test_md_by_name_def
      size_t_of_int_def next_malloc_fails_def calm_def fails_with_def)

subsection \<open>Digest of scattered input\<close>

lemma malloc_Some_length: "malloc n w = (Some buf, w') \<Longrightarrow> length buf = n"
  by (auto simp: malloc_def split: list.splits if_splits)

lemma mem_write_full: "mem_write buf out = Some buf' \<Longrightarrow> length out = length buf \<Longrightarrow> buf' = out"
  by (auto simp: mem_write_def split: if_splits)

lemma mem_write_length: "mem_write buf out = Some buf' \<Longrightarrow> length buf' = length buf"
  by (auto simp: mem_write_def split: if_splits)

lemma log_openssl_errors_not_OK [simp]: "fst (log_openssl_errors p fmt w) \<noteq> OK"
  by (simp add: log_openssl_errors_status)

lemma digest_size_result:
  "openssl_digest_size p digest_alg ret w = (OK, ret', w') \<Longrightarrow>
   \<exists>alg md. digest_alg = Some alg \<and> md_by_name p alg = Some md \<and> 0 < size_t_of_int (EVP_MD_get_size p md) \<and>
      ret' = Out (size_t_of_int (EVP_MD_get_size p md)) \<and> w' = w"
  using digest_size_ok[of p digest_alg ret w] by auto

lemma filled_buffer:
  "malloc n w = (Some b, w') \<Longrightarrow> mem_write b out = Some b' \<Longrightarrow> length out = n \<Longrightarrow> b' = out"
  using malloc_Some_length[of n w b w'] mem_write_full[of b out b'] by simp

lemma digest_many_ok:
  assumes "openssl_digest_many p digest_alg data n_data ret_digest ret_digest_size w = (OK, rets', w')"
  shows "\<exists>alg md buf. digest_alg = Some alg \<and> md_by_name p alg = Some md
     \<and> rets' = (Out (Mem buf), if ret_digest_size \<noteq> NullP then Out (length buf) else NullP)
     \<and> length buf = size_t_of_int (EVP_MD_get_size p md) \<and> 0 < length buf"
  using assms
  by (auto simp: openssl_digest_many_def Let_def leaving_def
      split: option.splits if_splits loop_end.splits prod.splits status.splits outp.splits
      dest!: digest_size_result dest: filled_buffer)

text \<open>
  C1: when \<open>openssl_digest_many\<close> succeeds, on any algorithm and any input (also no
  descriptors at all), the buffer it returns has the length that every successful
  \<open>openssl_digest_size\<close> call for the same algorithm writes, such a call does succeed,
  and the size reported through \<open>ret_digest_size\<close> (when asked for) is that length.
\<close>

theorem openssl_digest_many_size:
  assumes "openssl_digest_many p digest_alg data n_data ret_digest ret_digest_size w = (OK, rets', w')"
  shows "\<exists>buf digest_size.
           fst rets' = Out (Mem buf) \<and> length buf = digest_size
           \<and> (ret_digest_size \<noteq> NullP \<longrightarrow> snd rets' = Out digest_size)
           \<and> fst (openssl_digest_size p digest_alg (Out 0) w) = OK
           \<and> (\<forall>old w0. fst (openssl_digest_size p digest_alg (Out old) w0) = OK \<longrightarrow>
                 fst (snd (openssl_digest_size p digest_alg (Out old) w0)) = Out digest_size)"
proof -
  from digest_many_ok[OF assms] obtain alg md buf where
    a: "digest_alg = Some alg" "md_by_name p alg = Some md"
    and r: "rets' = (Out (Mem buf), if ret_digest_size \<noteq> NullP then Out (length buf) else NullP)"
    and l: "length buf = size_t_of_int (EVP_MD_get_size p md)" "0 < length buf"
    by blast
  have ok: "\<And>old w0. openssl_digest_size p digest_alg (Out old) w0 = (OK, Out (length buf), w0)"
    using a l by (simp add: openssl_digest_size_def Let_def)
  show ?thesis
    using r ok by (intro exI[of _ buf] exI[of _ "length buf"]) simp
qed

theorem openssl_digest_many_size_witness:
  "openssl_digest_many test_provider (Some ''sha256'') None 0 (Out NULL) (Out 0) calm
     = (OK, (Out (Mem (replicate 32 171)), Out 32), calm)
   \<and> openssl_digest_size test_provider (Some ''sha256'') (Out 0) calm = (OK, Out 32, calm)"
  using openssl_digest_many_size [of test_provider "Some ''sha256''" None 0 "Out NULL" "Out 0" calm
          "(Out (Mem (replicate 32 171)), Out 32)" calm]
  by (simp add: openssl_digest_many_def openssl_digest_size_def md_by_name_def test_provider_def
      test_md_by_name_def size_t_of_int_def calm_def digest_update_loop.simps malloc_def
      mem_write_def the_array_def)

end
